theory Spec2Isabelle
  imports Main
begin

section \<open>Variables: one contiguous block of memory with tensors pointing into it\<close>

text \<open>
  The class template \<^verbatim>\<open>Variables<tmpl::list<Tags...>>\<close> (DataStructures/Variables.hpp)
  holds the components of several tensors in one allocation. The model keeps every data
  member of the class; a member \<^verbatim>\<open>x_\<close> is the field \<open>x'\<close> of the record, since a name
  cannot end with an underscore here:
  \<^item> \<^verbatim>\<open>variable_data_impl_static_\<close>, the \<^verbatim>\<open>std::array\<close> used when there is one grid point;
  \<^item> \<^verbatim>\<open>variable_data_impl_dynamic_\<close>, the \<^verbatim>\<open>std::unique_ptr<value_type[]>\<close> (\<open>None\<close> is the
    null pointer, \<open>Some cells\<close> an allocation with its contents);
  \<^item> \<^verbatim>\<open>owning_\<close>, \<^verbatim>\<open>size_\<close>, \<^verbatim>\<open>number_of_grid_points_\<close>;
  \<^item> \<^verbatim>\<open>variable_data_\<close>, the \<^verbatim>\<open>blaze::CustomVector\<close> (a start pointer and a size);
  \<^item> \<^verbatim>\<open>reference_variable_data_\<close>, for every tag the views of its tensor components.

  The template parameters are parameters of the model: \<open>tags\<close> lists \<^verbatim>\<open>Tags::type::size()\<close>
  for each tag in order, and \<open>'a\<close> is \<^verbatim>\<open>value_type\<close>. \<^verbatim>\<open>size_t\<close> is \<open>nat\<close>: a
  value of the code is a number below \<open>2 ^ 64\<close>, every product the code computes is reduced
  modulo \<open>2 ^ 64\<close>, and where the code compares a value with such a product the two sides
  are compared modulo \<open>2 ^ 64\<close>.
\<close>

datatype 'a cell = Uninitialized | SignalingNaN | Value 'a

text \<open>
  A pointer is null, points into the object's own static array or dynamic allocation
  (at an offset), or is an address outside the object.
\<close>

datatype pointer = Nullptr | StaticStorage nat | DynamicStorage nat | External nat

type_synonym view = "pointer \<times> nat"

fun pointer_add :: "pointer \<Rightarrow> nat \<Rightarrow> pointer" where
  "pointer_add Nullptr k = Nullptr"
| "pointer_add (StaticStorage i) k = StaticStorage (i + k)"
| "pointer_add (DynamicStorage i) k = DynamicStorage (i + k)"
| "pointer_add (External a) k = External (a + k)"

record 'a Variables =
  variable_data_impl_static' :: "'a cell list"
  variable_data_impl_dynamic' :: "'a cell list option"
  owning' :: bool
  size' :: nat
  number_of_grid_points' :: nat
  variable_data' :: view
  reference_variable_data' :: "view list list"

text \<open>
  The build: \<^verbatim>\<open>SPECTRE_DEBUG\<close> and \<^verbatim>\<open>SPECTRE_NAN_INIT\<close>. The macros \<^verbatim>\<open>ASSERT\<close> and
  \<^verbatim>\<open>ERROR\<close> come from Utilities/ErrorHandling, which is not among the sources: \<^verbatim>\<open>ERROR\<close>
  always aborts the run, \<^verbatim>\<open>ASSERT\<close> aborts it when its condition fails in a build with
  \<^verbatim>\<open>SPECTRE_DEBUG\<close> and is empty otherwise.
\<close>

record build =
  spectre_debug :: bool
  spectre_nan_init :: bool

datatype error =
    InitializeNonOwning nat nat
  | AssertSizeNotMultiple nat nat
  | AssertSizeMismatch nat nat nat

text \<open>
  \<^verbatim>\<open>new value_type[n]\<close> inside \<^verbatim>\<open>make_unique_for_overwrite\<close> either succeeds or throws
  \<^verbatim>\<open>std::bad_array_new_length\<close> or \<^verbatim>\<open>std::bad_alloc\<close>. Which of them happens for a
  requested length is decided by the platform, so the allocator is a parameter
  \<open>new_array\<close> of the model (\<open>None\<close>: the allocation succeeds). An exception leaves the
  object as it was when the exception was thrown; an abort leaves nothing.
\<close>

datatype exception = Bad_array_new_length | Bad_alloc

datatype 'a outcome =
    Returned "'a Variables"
  | Aborted error
  | Thrown exception "'a Variables"

definition number_of_independent_components :: "nat list \<Rightarrow> nat" where
  "number_of_independent_components tags = sum_list tags"

definition number_of_grid_points :: "'a Variables \<Rightarrow> nat" where
  "number_of_grid_points v = number_of_grid_points' v"

definition size_Variables :: "'a Variables \<Rightarrow> nat" where
  "size_Variables v = size' v"

definition is_owning :: "'a Variables \<Rightarrow> bool" where
  "is_owning v = owning' v"

definition data :: "'a Variables \<Rightarrow> pointer" where
  "data v = fst (variable_data' v)"

text \<open>\<^verbatim>\<open>variable_data_impl_dynamic_.get()\<close>.\<close>

definition dynamic_get :: "'a Variables \<Rightarrow> pointer" where
  "dynamic_get v =
     (case variable_data_impl_dynamic' v of None \<Rightarrow> Nullptr | Some cells \<Rightarrow> DynamicStorage 0)"

text \<open>
  The default constructor: the members' default initialisers, and every tensor component
  set to refer to \<^verbatim>\<open>(nullptr, 0)\<close>. The static array is not initialised.
\<close>

definition Variables_default :: "nat list \<Rightarrow> 'a Variables" where
  "Variables_default tags =
     \<lparr> variable_data_impl_static' =
         replicate (number_of_independent_components tags) Uninitialized,
       variable_data_impl_dynamic' = None,
       owning' = True,
       size' = 0,
       number_of_grid_points' = 0,
       variable_data' = (Nullptr, 0),
       reference_variable_data' = map (\<lambda>t. replicate t (Nullptr, 0)) tags \<rparr>"

text \<open>
  The loop of \<^verbatim>\<open>add_reference_variable_data\<close>: component \<open>i\<close> of a tag refers to
  \<^verbatim>\<open>&variable_data_[variable_offset++ * number_of_grid_points_]\<close>, the offset running on
  from tag to tag and the product wrapping as \<^verbatim>\<open>size_t\<close> does.
\<close>

fun component_views :: "pointer \<Rightarrow> nat \<Rightarrow> nat \<Rightarrow> nat list \<Rightarrow> view list list" where
  "component_views base n variable_offset [] = []"
| "component_views base n variable_offset (t # tags) =
     map (\<lambda>i. (pointer_add base (((variable_offset + i) * n) mod 2 ^ 64), n)) [0..<t]
       # component_views base n (variable_offset + t) tags"

definition add_reference_variable_data ::
  "build \<Rightarrow> nat list \<Rightarrow> 'a Variables \<Rightarrow> error + 'a Variables" where
  "add_reference_variable_data b tags v =
     (if size' v = 0 then Inr v
      else
        let v1 =
          (if is_owning v then
             (if number_of_grid_points' v = 1
              then v\<lparr>variable_data' := (StaticStorage 0, size' v)\<rparr>
              else v\<lparr>variable_data' := (dynamic_get v, size' v)\<rparr>)
           else v)
        in
          if spectre_debug b \<and>
             \<not> (snd (variable_data' v1) = size' v1 \<and>
                size' v1 mod 2 ^ 64 =
                  (number_of_grid_points' v1 * number_of_independent_components tags) mod 2 ^ 64)
          then Inl (AssertSizeMismatch (snd (variable_data' v1)) (size' v1)
                     ((number_of_grid_points' v1 * number_of_independent_components tags)
                        mod 2 ^ 64))
          else Inr (v1\<lparr>reference_variable_data' :=
                 component_views (fst (variable_data' v1)) (number_of_grid_points' v1) 0 tags\<rparr>))"

text \<open>
  \<^verbatim>\<open>std::fill(variable_data_.data(), variable_data_.data() + size_, value)\<close>: the cells
  written are those of the object's own storage that the range covers; memory outside the
  object is not part of the model.
\<close>

definition fill_range :: "'a cell list \<Rightarrow> nat \<Rightarrow> nat \<Rightarrow> 'a cell \<Rightarrow> 'a cell list" where
  "fill_range cells first n c =
     map (\<lambda>i. if first \<le> i \<and> i < first + n then c else cells ! i) [0..<length cells]"

definition fill_data :: "'a Variables \<Rightarrow> 'a cell \<Rightarrow> 'a Variables" where
  "fill_data v c =
     (case data v of
        Nullptr \<Rightarrow> v
      | StaticStorage i \<Rightarrow>
          v\<lparr>variable_data_impl_static' := fill_range (variable_data_impl_static' v) i (size' v) c\<rparr>
      | DynamicStorage i \<Rightarrow>
          v\<lparr>variable_data_impl_dynamic' :=
              map_option (\<lambda>cells. fill_range cells i (size' v) c) (variable_data_impl_dynamic' v)\<rparr>
      | External a \<Rightarrow> v)"

text \<open>
  \<^verbatim>\<open>void initialize(size_t number_of_grid_points)\<close>. A fresh allocation of
  \<^verbatim>\<open>make_unique_for_overwrite\<close> holds uninitialised cells; when the allocation throws,
  \<^verbatim>\<open>number_of_grid_points_\<close> and \<^verbatim>\<open>size_\<close> have already been assigned.
\<close>

definition initialize ::
  "build \<Rightarrow> (nat \<Rightarrow> exception option) \<Rightarrow> nat list \<Rightarrow> 'a Variables \<Rightarrow> nat \<Rightarrow> 'a outcome" where
  "initialize b new_array tags v0 n =
     (let v =
        (if number_of_grid_points' v0 = 0
         then v0\<lparr>variable_data_impl_dynamic' := None, size' := 0, number_of_grid_points' := 0\<rparr>
         else v0)
      in
        if number_of_grid_points' v = n then Returned v
        else if \<not> is_owning v then Aborted (InitializeNonOwning (number_of_grid_points' v) n)
        else
          let v1 = v\<lparr>number_of_grid_points' := n,
                     size' := (n * number_of_independent_components tags) mod 2 ^ 64\<rparr>
          in
            if size' v1 > 0 then
              (case (if number_of_grid_points' v1 = 1 then None else new_array (size' v1)) of
                 Some x \<Rightarrow> Thrown x v1
               | None \<Rightarrow>
                   let v2 =
                     (if number_of_grid_points' v1 = 1
                      then v1\<lparr>variable_data_impl_dynamic' := None\<rparr>
                      else v1\<lparr>variable_data_impl_dynamic' :=
                               Some (replicate (size' v1) Uninitialized)\<rparr>)
                   in
                     (case add_reference_variable_data b tags v2 of
                        Inl e \<Rightarrow> Aborted e
                      | Inr v3 \<Rightarrow>
                          Returned (if spectre_debug b \<or> spectre_nan_init b
                                    then fill_data v3 SignalingNaN else v3)))
            else Returned v1)"

text \<open>\<^verbatim>\<open>void set_data_ref(pointer const start, const size_t size)\<close>.\<close>

definition set_data_ref ::
  "build \<Rightarrow> nat list \<Rightarrow> 'a Variables \<Rightarrow> pointer \<Rightarrow> nat \<Rightarrow> error + 'a Variables" where
  "set_data_ref b tags v0 start sz =
     (let v = v0\<lparr>variable_data_impl_dynamic' := None\<rparr> in
        if start = Nullptr then
          add_reference_variable_data b tags
            (v\<lparr>variable_data' := (Nullptr, 0), size' := 0, number_of_grid_points' := 0,
               owning' := False\<rparr>)
        else
          let v1 = v\<lparr>size' := sz, variable_data' := (start, sz)\<rparr> in
            if spectre_debug b \<and> size' v1 mod number_of_independent_components tags \<noteq> 0
            then Inl (AssertSizeNotMultiple (size' v1) (number_of_independent_components tags))
            else
              add_reference_variable_data b tags
                (v1\<lparr>number_of_grid_points' :=
                      size' v1 div number_of_independent_components tags,
                    owning' := False\<rparr>))"

subsection \<open>Three objects the operations build\<close>

definition debug_build :: build where
  "debug_build = \<lparr> spectre_debug = True, spectre_nan_init = False \<rparr>"

text \<open>An allocator with memory to spare: no allocation throws.\<close>

definition plentiful :: "nat \<Rightarrow> exception option" where
  "plentiful n = None"

text \<open>
  A default-constructed \<^verbatim>\<open>Variables<tmpl::list<Tag>> v\<close> with one scalar tag after
  \<^verbatim>\<open>v.initialize(2)\<close>, in a debug build.
\<close>

definition grown :: "'a Variables" where
  "grown =
     \<lparr> variable_data_impl_static' = [Uninitialized],
       variable_data_impl_dynamic' = Some [SignalingNaN, SignalingNaN],
       owning' = True,
       size' = 2,
       number_of_grid_points' = 2,
       variable_data' = (DynamicStorage 0, 2),
       reference_variable_data' = [[(DynamicStorage 0, 2)]] \<rparr>"

text \<open>The same object after \<^verbatim>\<open>v.initialize(0)\<close>.\<close>

definition shrunk :: "'a Variables" where
  "shrunk =
     \<lparr> variable_data_impl_static' = [Uninitialized],
       variable_data_impl_dynamic' = Some [SignalingNaN, SignalingNaN],
       owning' = True,
       size' = 0,
       number_of_grid_points' = 0,
       variable_data' = (DynamicStorage 0, 2),
       reference_variable_data' = [[(DynamicStorage 0, 2)]] \<rparr>"

text \<open>
  A default-constructed object with one scalar tag after \<^verbatim>\<open>set_data_ref(start, 3)\<close>, where
  \<^verbatim>\<open>start\<close> is the address 100 of a buffer outside the object.
\<close>

definition referencing :: "'a Variables" where
  "referencing =
     \<lparr> variable_data_impl_static' = [Uninitialized],
       variable_data_impl_dynamic' = None,
       owning' = False,
       size' = 3,
       number_of_grid_points' = 3,
       variable_data' = (External 100, 3),
       reference_variable_data' = [[(External 100, 3)]] \<rparr>"

section \<open>DgSubcell: the active grid of an element and its switch policy\<close>

text \<open>
  The DgSubcell library (Evolution/DgSubcell) is present in the sources only through the
  list of its files and through the options of the input files
  (\<^verbatim>\<open>Subcell: TroubledCellIndicator: FdToDgTci: MinimumClearTcis\<close>). The definitions of
  this section are therefore written from the specification, sections 4.2 and 4.3.
\<close>

text \<open>
  Modelled from the spec: the tag \<^verbatim>\<open>ActiveGrid\<close> (ActiveGrid.hpp is missing), "enum-like
  tag {Dg, Subcell} attached per element".
\<close>

datatype ActiveGrid = Dg | Subcell

text \<open>
  Modelled from the spec: the per-element state the switch policy needs (the code that
  holds it is missing): the active grid, and the number of consecutive steps without a
  troubled cell that the hysteresis policy counts while the element is on the subcell grid.
\<close>

record element =
  active_grid :: ActiveGrid
  clear_tcis :: nat

text \<open>
  Modelled from the spec: the initial state (the initialisation code is missing),
  "configurable per-element at startup"; no step has been counted yet.
\<close>

definition initial_element :: "ActiveGrid \<Rightarrow> element" where
  "initial_element g = \<lparr> active_grid = g, clear_tcis = 0 \<rparr>"

text \<open>
  Modelled from the spec: one evaluation of the transitions (the actions that switch
  grids are missing), "evaluated once per step, after troubled-cell decision":
  a troubled element on Dg switches to Subcell; a troubled element on Subcell stays and
  its count of clear steps starts again; an element on Subcell that is not troubled
  switches back to Dg once the configured minimum number of consecutive "not troubled"
  steps is reached, and otherwise stays with one more clear step counted; an element on
  Dg that is not troubled stays as it is.
\<close>

definition tci_step :: "nat \<Rightarrow> element \<Rightarrow> bool \<Rightarrow> element" where
  "tci_step minimum_clear_tcis e troubled =
     (case active_grid e of
        Dg \<Rightarrow>
          if troubled then \<lparr> active_grid = Subcell, clear_tcis = 0 \<rparr> else e
      | Subcell \<Rightarrow>
          if troubled then \<lparr> active_grid = Subcell, clear_tcis = 0 \<rparr>
          else if minimum_clear_tcis \<le> clear_tcis e + 1
          then \<lparr> active_grid = Dg, clear_tcis = 0 \<rparr>
          else \<lparr> active_grid = Subcell, clear_tcis = clear_tcis e + 1 \<rparr>)"

text \<open>
  Modelled from the spec: the steps of an element in order (the evolution loop is the
  external scheduler's), one troubled-cell decision per step.
\<close>

definition run_steps :: "nat \<Rightarrow> element \<Rightarrow> bool list \<Rightarrow> element" where
  "run_steps minimum_clear_tcis e decisions = foldl (tci_step minimum_clear_tcis) e decisions"

text \<open>
  Modelled from the spec: the "consecutive not troubled steps" that the hysteresis window
  is measured in (no code for them is among the sources), counted at the end of a history
  of decisions.
\<close>

definition trailing_clear :: "bool list \<Rightarrow> nat" where
  "trailing_clear decisions = length (takeWhile (\<lambda>troubled. \<not> troubled) (rev decisions))"

section \<open>Properties of Variables\<close>

lemma add_reference_variable_data_fields:
  assumes "add_reference_variable_data b tags v = Inr v'"
  shows "owning' v' = owning' v" and "size' v' = size' v"
    and "number_of_grid_points' v' = number_of_grid_points' v"
  using assms
  by (auto simp: add_reference_variable_data_def Let_def split: if_splits)

lemma add_reference_variable_data_non_owning:
  assumes "\<not> owning' v" and "snd (variable_data' v) = size' v"
    and "size' v = number_of_grid_points' v * number_of_independent_components tags"
  shows "add_reference_variable_data b tags v = Inr (
           if size' v = 0 then v
           else v\<lparr>reference_variable_data' :=
                  component_views (fst (variable_data' v)) (number_of_grid_points' v) 0 tags\<rparr>)"
  using assms by (simp add: add_reference_variable_data_def is_owning_def)

lemma referencing_built:
  "set_data_ref debug_build [1] (Variables_default [1]) (External 100) 3 = Inr referencing"
  by (simp add: set_data_ref_def Variables_default_def number_of_independent_components_def
      debug_build_def referencing_def is_owning_def add_reference_variable_data_def Let_def
      upt_rec)

text \<open>
  C10. After \<^verbatim>\<open>v.set_data_ref(start, size)\<close> the object is non-owning. With a null
  \<^verbatim>\<open>start\<close> its size and its number of grid points are 0. Otherwise, when \<^verbatim>\<open>size\<close> is
  a multiple of \<^verbatim>\<open>number_of_independent_components\<close> (the asserted precondition), the
  call returns with \<^verbatim>\<open>number_of_grid_points() == size / number_of_independent_components\<close>
  and \<^verbatim>\<open>size() == size\<close>.
\<close>

theorem set_data_ref_non_owning:
  "(\<forall>v'. set_data_ref b tags v start sz = Inr v' \<longrightarrow> \<not> is_owning v') \<and>
   (start = Nullptr \<longrightarrow>
      (\<exists>v'. set_data_ref b tags v start sz = Inr v' \<and> \<not> is_owning v' \<and>
            size_Variables v' = 0 \<and> number_of_grid_points v' = 0)) \<and>
   (start \<noteq> Nullptr \<and> sz mod number_of_independent_components tags = 0 \<longrightarrow>
      (\<exists>v'. set_data_ref b tags v start sz = Inr v' \<and> \<not> is_owning v' \<and>
            number_of_grid_points v' = sz div number_of_independent_components tags \<and>
            size_Variables v' = sz))"
proof (intro conjI allI impI)
  fix v'
  assume "set_data_ref b tags v start sz = Inr v'"
  then show "\<not> is_owning v'"
    by (auto simp: set_data_ref_def Let_def is_owning_def
        dest!: add_reference_variable_data_fields(1) split: if_splits)
next
  assume "start = Nullptr"
  then show "\<exists>v'. set_data_ref b tags v start sz = Inr v' \<and> \<not> is_owning v' \<and>
      size_Variables v' = 0 \<and> number_of_grid_points v' = 0"
    by (simp add: set_data_ref_def add_reference_variable_data_def is_owning_def
        size_Variables_def number_of_grid_points_def)
next
  assume a: "start \<noteq> Nullptr \<and> sz mod number_of_independent_components tags = 0"
  let ?w = "v\<lparr>variable_data_impl_dynamic' := None, size' := sz, variable_data' := (start, sz),
      number_of_grid_points' := sz div number_of_independent_components tags,
      owning' := False\<rparr>"
  from a have m: "sz = sz div number_of_independent_components tags *
      number_of_independent_components tags"
    by (metis div_mult_mod_eq add.right_neutral)
  have "add_reference_variable_data b tags ?w = Inr (
           if size' ?w = 0 then ?w
           else ?w\<lparr>reference_variable_data' :=
                  component_views (fst (variable_data' ?w)) (number_of_grid_points' ?w) 0 tags\<rparr>)"
    by (rule add_reference_variable_data_non_owning) (use m in simp_all)
  with a show "\<exists>v'. set_data_ref b tags v start sz = Inr v' \<and> \<not> is_owning v' \<and>
      number_of_grid_points v' = sz div number_of_independent_components tags \<and>
      size_Variables v' = sz"
    by (simp add: set_data_ref_def Let_def is_owning_def size_Variables_def
        number_of_grid_points_def)
qed

theorem set_data_ref_non_owning_witness:
  "set_data_ref debug_build [1] (grown :: 'a Variables) Nullptr 7 =
     Inr (grown\<lparr>variable_data_impl_dynamic' := None, variable_data' := (Nullptr, 0),
            size' := 0, number_of_grid_points' := 0, owning' := False\<rparr>) \<and>
   External 100 \<noteq> Nullptr \<and> 3 mod number_of_independent_components [1] = 0 \<and>
   set_data_ref debug_build [1] (Variables_default [1]) (External 100) 3 =
     Inr (referencing :: 'a Variables) \<and>
   \<not> is_owning (referencing :: 'a Variables) \<and>
   number_of_grid_points (referencing :: 'a Variables) = 3 \<and>
   size_Variables (referencing :: 'a Variables) = 3"
proof -
  have null: "set_data_ref debug_build [1] (grown :: 'a Variables) Nullptr 7 =
     Inr (grown\<lparr>variable_data_impl_dynamic' := None, variable_data' := (Nullptr, 0),
            size' := 0, number_of_grid_points' := 0, owning' := False\<rparr>)"
    by (simp add: set_data_ref_def add_reference_variable_data_def grown_def)
  have pre: "External 100 \<noteq> Nullptr \<and> 3 mod number_of_independent_components [1] = 0"
    by (simp add: number_of_independent_components_def)
  from set_data_ref_non_owning
      [of debug_build "[1]" "Variables_default [1] :: 'a Variables" "External 100" 3] pre
  have "\<exists>v' :: 'a Variables.
      set_data_ref debug_build [1] (Variables_default [1]) (External 100) 3 = Inr v' \<and>
      \<not> is_owning v' \<and>
      number_of_grid_points v' = 3 div number_of_independent_components [1] \<and>
      size_Variables v' = 3"
    by blast
  with referencing_built [where ?'a = 'a]
  have "\<not> is_owning (referencing :: 'a Variables) \<and>
      number_of_grid_points (referencing :: 'a Variables) = 3 \<and>
      size_Variables (referencing :: 'a Variables) = 3"
    by (auto simp add: number_of_independent_components_def)
  with null pre referencing_built [where ?'a = 'a] show ?thesis
    by blast
qed

lemma grown_built:
  "initialize debug_build plentiful [1] (Variables_default [1]) 2 = Returned grown"
  by (simp add: initialize_def Variables_default_def number_of_independent_components_def
      debug_build_def plentiful_def grown_def is_owning_def add_reference_variable_data_def
      dynamic_get_def fill_data_def data_def fill_range_def Let_def upt_rec)

lemma shrunk_built: "initialize debug_build plentiful [1] grown 0 = Returned shrunk"
  by (simp add: initialize_def grown_def shrunk_def is_owning_def
      number_of_independent_components_def)

text \<open>
  An object with 0 grid points has size 0. This is a consequence of the consistency that
  \<^verbatim>\<open>add_reference_variable_data\<close> asserts (the size is the number of grid points times the
  number of independent components); the default constructor establishes it, and
  \<^verbatim>\<open>initialize\<close> and \<^verbatim>\<open>set_data_ref\<close> (called as its assertion requires) keep it.
\<close>

lemma default_empty_has_size_0:
  "number_of_grid_points (Variables_default tags) = 0 \<longrightarrow>
   size_Variables (Variables_default tags) = 0"
  by (simp add: Variables_default_def size_Variables_def)

lemma fill_data_fields:
  "size' (fill_data v c) = size' v"
  "number_of_grid_points' (fill_data v c) = number_of_grid_points' v"
  by (simp_all add: fill_data_def split: pointer.splits)

lemma initialize_empty_has_size_0:
  assumes "initialize b new_array tags v n = Returned v'"
    and "number_of_grid_points v = 0 \<longrightarrow> size_Variables v = 0"
  shows "number_of_grid_points v' = 0 \<longrightarrow> size_Variables v' = 0"
  using assms
  by (auto simp: initialize_def Let_def number_of_grid_points_def size_Variables_def
      fill_data_fields
      dest!: add_reference_variable_data_fields(2,3)
      split: if_splits option.splits sum.splits)

lemma set_data_ref_empty_has_size_0:
  assumes "set_data_ref b tags v start sz = Inr v'"
    and "start \<noteq> Nullptr \<longrightarrow> sz mod number_of_independent_components tags = 0"
  shows "number_of_grid_points v' = 0 \<longrightarrow> size_Variables v' = 0"
proof (cases "start = Nullptr")
  case True
  with assms(1) show ?thesis
    by (auto simp: set_data_ref_def add_reference_variable_data_def
        number_of_grid_points_def size_Variables_def)
next
  case False
  with assms(2) have m: "sz mod number_of_independent_components tags = 0" by simp
  let ?w = "v\<lparr>variable_data_impl_dynamic' := None, size' := sz, variable_data' := (start, sz),
      number_of_grid_points' := sz div number_of_independent_components tags,
      owning' := False\<rparr>"
  from assms(1) False have ar: "add_reference_variable_data b tags ?w = Inr v'"
    by (simp add: set_data_ref_def Let_def split: if_splits)
  have "size' v' = sz"
    and "number_of_grid_points' v' = sz div number_of_independent_components tags"
    using add_reference_variable_data_fields(2,3) [OF ar] by simp_all
  moreover from m have "sz = sz div number_of_independent_components tags *
      number_of_independent_components tags"
    by (metis div_mult_mod_eq add.right_neutral)
  ultimately show ?thesis
    by (auto simp: number_of_grid_points_def size_Variables_def)
qed

text \<open>
  C9. For every object \<open>v\<close> (with size 0 when it has 0 grid points) and every \<open>n\<close>: when
  \<^verbatim>\<open>v.number_of_grid_points() == n\<close>, \<^verbatim>\<open>v.initialize(n)\<close> returns and leaves
  \<^verbatim>\<open>size()\<close>, \<^verbatim>\<open>is_owning()\<close>, \<^verbatim>\<open>data()\<close> and \<^verbatim>\<open>number_of_grid_points()\<close> as they
  were, and for \<open>n\<close> other than 0 the whole object; when \<open>v\<close> is non-owning and \<open>n\<close>
  differs from its number of grid points, \<^verbatim>\<open>v.initialize(n)\<close> is the fatal error, whatever
  the allocator would do.
\<close>

theorem initialize_same_number_of_grid_points:
  "(number_of_grid_points v = n \<and> (n = 0 \<longrightarrow> size_Variables v = 0) \<longrightarrow>
      (\<exists>v'. initialize b new_array tags v n = Returned v' \<and>
            size_Variables v' = size_Variables v \<and>
            is_owning v' = is_owning v \<and>
            data v' = data v \<and>
            number_of_grid_points v' = number_of_grid_points v \<and>
            (n \<noteq> 0 \<longrightarrow> v' = v))) \<and>
   (\<not> is_owning v \<and> number_of_grid_points v \<noteq> n \<longrightarrow>
      initialize b new_array tags v n =
        Aborted (InitializeNonOwning (number_of_grid_points v) n))"
  by (simp add: initialize_def number_of_grid_points_def size_Variables_def is_owning_def
      data_def Let_def)

theorem initialize_same_number_of_grid_points_witness:
  "number_of_grid_points (grown :: 'a Variables) = 2 \<and>
   initialize debug_build plentiful [1] (grown :: 'a Variables) 2 = Returned grown \<and>
   number_of_grid_points (shrunk :: 'a Variables) = 0 \<and>
   size_Variables (shrunk :: 'a Variables) = 0 \<and>
   (\<exists>v' :: 'a Variables.
      initialize debug_build plentiful [1] shrunk 0 = Returned v' \<and>
      size_Variables v' = 0 \<and> is_owning v' \<and> data v' = DynamicStorage 0 \<and>
      number_of_grid_points v' = 0) \<and>
   \<not> is_owning (referencing :: 'a Variables) \<and>
   number_of_grid_points (referencing :: 'a Variables) \<noteq> 5 \<and>
   initialize debug_build plentiful [1] (referencing :: 'a Variables) 5 =
     Aborted (InitializeNonOwning 3 5)"
  using initialize_same_number_of_grid_points
      [of "grown :: 'a Variables" 2 debug_build plentiful "[1]"]
    initialize_same_number_of_grid_points
      [of "shrunk :: 'a Variables" 0 debug_build plentiful "[1]"]
    initialize_same_number_of_grid_points
      [of "referencing :: 'a Variables" 5 debug_build plentiful "[1]"]
  by (auto simp add: number_of_grid_points_def size_Variables_def is_owning_def data_def
      grown_def shrunk_def referencing_def)

section \<open>Properties of the switch policy\<close>

lemma run_steps_snoc:
  "run_steps N e (ds @ [d]) = tci_step N (run_steps N e ds) d"
  by (simp add: run_steps_def)

lemma run_steps_append:
  "run_steps N e (ds @ ds') = run_steps N (run_steps N e ds) ds'"
  by (simp add: run_steps_def)

lemma trailing_clear_snoc:
  "trailing_clear (ds @ [d]) = (if d then 0 else Suc (trailing_clear ds))"
  by (simp add: trailing_clear_def)

lemma clear_tcis_le_trailing_clear:
  "clear_tcis (run_steps N (initial_element g) ds) \<le> trailing_clear ds"
proof (induction ds rule: rev_induct)
  case Nil
  show ?case by (simp add: run_steps_def initial_element_def)
next
  case (snoc d ds)
  then show ?case
    by (auto simp: run_steps_snoc trailing_clear_snoc tci_step_def split: ActiveGrid.splits)
qed

lemma tci_step_troubled:
  "tci_step N e True = \<lparr> active_grid = Subcell, clear_tcis = 0 \<rparr>"
  by (simp add: tci_step_def split: ActiveGrid.splits)

lemma run_steps_clear:
  "k < N \<Longrightarrow> run_steps N \<lparr> active_grid = Subcell, clear_tcis = 0 \<rparr> (replicate k False)
     = \<lparr> active_grid = Subcell, clear_tcis = k \<rparr>"
proof (induction k)
  case 0
  show ?case by (simp add: run_steps_def)
next
  case (Suc k)
  then have ih: "run_steps N \<lparr> active_grid = Subcell, clear_tcis = 0 \<rparr> (replicate k False)
     = \<lparr> active_grid = Subcell, clear_tcis = k \<rparr>" by simp
  have split: "replicate (Suc k) False = replicate k False @ [False]"
    by (simp add: replicate_append_same)
  from Suc.prems show ?case
    unfolding split run_steps_snoc ih by (simp add: tci_step_def)
qed

text \<open>
  C4. With a hysteresis window of \<open>N\<close> steps, an element switches from Subcell back to Dg
  only at a step that completes at least \<open>N\<close> consecutive "not troubled" decisions. After
  a troubled step the element is on Subcell, it is still on Subcell after each of the
  next \<open>k < N\<close> untroubled steps, and when it is troubled again after \<open>N - 1\<close> of them it is
  on Subcell with its count of clear steps back at 0.
\<close>

theorem hysteresis:
  "(active_grid (run_steps N (initial_element g) ds) = Subcell \<and>
    active_grid (run_steps N (initial_element g) (ds @ [d])) = Dg \<longrightarrow>
      N \<le> trailing_clear (ds @ [d])) \<and>
   (\<forall>k<N. run_steps N (initial_element g) (ds @ True # replicate k False) =
      \<lparr> active_grid = Subcell, clear_tcis = k \<rparr>) \<and>
   run_steps N (initial_element g) (ds @ True # replicate (N - 1) False @ [True]) =
      \<lparr> active_grid = Subcell, clear_tcis = 0 \<rparr>"
proof (intro conjI impI allI)
  assume a: "active_grid (run_steps N (initial_element g) ds) = Subcell \<and>
    active_grid (run_steps N (initial_element g) (ds @ [d])) = Dg"
  have "clear_tcis (run_steps N (initial_element g) ds) \<le> trailing_clear ds"
    by (rule clear_tcis_le_trailing_clear)
  with a show "N \<le> trailing_clear (ds @ [d])"
    by (auto simp: run_steps_snoc trailing_clear_snoc tci_step_def split: if_splits)
next
  fix k assume "k < N"
  then show "run_steps N (initial_element g) (ds @ True # replicate k False) =
      \<lparr> active_grid = Subcell, clear_tcis = k \<rparr>"
    using run_steps_append [of N "initial_element g" "ds @ [True]" "replicate k False"]
    by (simp add: run_steps_snoc tci_step_troubled run_steps_clear)
next
  show "run_steps N (initial_element g) (ds @ True # replicate (N - 1) False @ [True]) =
      \<lparr> active_grid = Subcell, clear_tcis = 0 \<rparr>"
    using run_steps_snoc [of N "initial_element g" "ds @ True # replicate (N - 1) False" True]
    by (simp add: tci_step_troubled)
qed

theorem hysteresis_witness:
  "active_grid (run_steps 3 (initial_element Dg) [True, False, False]) = Subcell \<and>
   active_grid (run_steps 3 (initial_element Dg) ([True, False, False] @ [False])) = Dg \<and>
   3 \<le> trailing_clear ([True, False, False] @ [False]) \<and>
   (2::nat) < 3 \<and>
   run_steps 3 (initial_element Dg) ([True, False, False] @ True # replicate 2 False) =
      \<lparr> active_grid = Subcell, clear_tcis = 2 \<rparr>"
  using hysteresis [of 3 Dg "[True, False, False]" False]
  by (simp add: run_steps_def tci_step_def initial_element_def numeral_2_eq_2)

end
